theory Spec2Isabelle
  imports Main "HOL-Library.Sublist"
begin

section \<open>Python values and strings\<close>

text \<open>
  The development embeds \<^verbatim>\<open>logger.py\<close> and \<^verbatim>\<open>main.py\<close>. A \<^typ>\<open>string\<close> is text that
  UTF-8 can encode, and the content of a file is the text that was written to it: text
  files are written and read back in one encoding (UTF-8, the default of \<^verbatim>\<open>decode()\<close>),
  so that decoding what \<^verbatim>\<open>readline\<close> returns gives back the characters written, and a
  newline is written as one character, as on POSIX. The messages, file names and operation
  names the code handles are such text. Python's \<^verbatim>\<open>a in b\<close> on strings is
  \<^const>\<open>sublist\<close>. Standard output (\<^verbatim>\<open>print\<close>) is not part of the state.
\<close>

abbreviation NL :: char where "NL \<equiv> CHR 0x0A"
abbreviation CR :: char where "CR \<equiv> CHR 0x0D"
abbreviation DQ :: char where "DQ \<equiv> CHR 0x22"
abbreviation BSL :: char where "BSL \<equiv> CHR 0x5C"
abbreviation SQ :: char where "SQ \<equiv> CHR 0x27"

datatype error =
    OSError
  | FileNotFoundError
  | UnicodeEncodeError
  | ArgumentTypeError string
  | Exception string
  | Exception_from error
  | ValueError
  | HandlerError string

text \<open>\<^verbatim>\<open>str(n)\<close> for a line number.\<close>

fun str_nat :: "nat \<Rightarrow> string" where
  "str_nat n =
     (if n < 10 then [''0123456789'' ! n]
      else str_nat (n div 10) @ [''0123456789'' ! (n mod 10)])"

declare str_nat.simps [simp del]

text \<open>
  \<^verbatim>\<open>s.split(sep)\<close> for a separator of one character. The result is never the empty list,
  so the first case of the inner \<open>case\<close> is never taken and \<^verbatim>\<open>[-1]\<close> is \<^const>\<open>last\<close>.
\<close>

fun split_on :: "char \<Rightarrow> string \<Rightarrow> string list" where
  "split_on sep [] = [[]]"
| "split_on sep (c # cs) =
     (if c = sep then [] # split_on sep cs
      else (case split_on sep cs of [] \<Rightarrow> [[c]] | p # ps \<Rightarrow> (c # p) # ps))"

section \<open>The call stack\<close>

text \<open>
  \<^verbatim>\<open>traceback.extract_stack()\<close> returns the frames of the running calls, outermost first,
  the last one being the frame of the function that captures the stack. A function only
  runs when something called it, so the stack a function sees is given as its callers: the
  frames beneath the immediate caller, and the immediate caller's frame at the line of the
  call. Of a frame summary \<^verbatim>\<open>(filename, line_no, function_name, code)\<close> the logger reads
  the first two components.
\<close>

record frame =
  frame_file :: string
  frame_line :: nat

type_synonym callers = "frame list \<times> frame"

definition extract_stack :: "callers \<Rightarrow> frame \<Rightarrow> frame list" where
  "extract_stack cs own = fst cs @ [snd cs, own]"

text \<open>\<^verbatim>\<open>stack[-2]\<close>, on a stack of at least two frames as \<^const>\<open>extract_stack\<close> gives it.\<close>

definition second_to_last :: "'a list \<Rightarrow> 'a" where
  "second_to_last xs = xs ! (length xs - 2)"

text \<open>The callers seen by a function that is called from the frame \<open>own\<close>.\<close>

definition called_from :: "callers \<Rightarrow> frame \<Rightarrow> callers" where
  "called_from cs own = (fst cs @ [snd cs], own)"

text \<open>\<^verbatim>\<open>inspect.currentframe().f_back.f_lineno\<close>, called from the frame \<open>snd cs\<close>.\<close>

definition line_number :: "callers \<Rightarrow> nat" where
  "line_number cs = frame_line (snd cs)"

section \<open>The environment\<close>

text \<open>
  What the code reads from outside: the clock through \<^verbatim>\<open>time.strftime\<close>, the file names
  Python recorded for the two modules, and where the path of a data file leads. The files
  are keyed by the file they are, not by the text of a path: \<open>locate\<close> gives the key of the
  file that opening a path for writing reaches (two paths of one file have one key), or the
  error that \<^verbatim>\<open>open\<close> raises for it (an empty name, a directory that does not exist, a
  path that is a directory).
\<close>

record env =
  strftime :: "string \<Rightarrow> string"
  logger_file :: string
  main_file :: string
  locate :: "string \<Rightarrow> error + string"

definition now_date :: "env \<Rightarrow> string" where
  "now_date env = strftime env ''%m/%d/%Y''"

definition now_time :: "env \<Rightarrow> string" where
  "now_time env = strftime env ''%I:%M:%S %p %Z''"

section \<open>logger.py\<close>

type_synonym fs = "string \<rightharpoonup> string"

definition LOGFILE :: string where
  "LOGFILE = ''log.txt''"

definition START_SCRIPT :: string where
  "START_SCRIPT = ''-------------/ Start of Script '' @ [BSL] @ ''--------------''"

text \<open>
  Opening a file with mode \<^verbatim>\<open>"a"\<close> creates it when it is missing; writing appends.
  The log is opened by the name \<^verbatim>\<open>log.txt\<close> in the working directory, and that name is
  its key: opening it for appending succeeds, and a log line, being text, is always encoded.
  Any other path is opened where the environment locates it.
\<close>

definition open_for_writing :: "env \<Rightarrow> string \<Rightarrow> error + string" where
  "open_for_writing env path = (if path = LOGFILE then Inr LOGFILE else locate env path)"

definition append_text :: "fs \<Rightarrow> string \<Rightarrow> string \<Rightarrow> fs" where
  "append_text files path text =
     files(path \<mapsto> (case files path of None \<Rightarrow> [] | Some old \<Rightarrow> old) @ text)"

text \<open>
  The two \<^verbatim>\<open>split\<close> lines every logger function applies to the caller's file name.
  In \<^verbatim>\<open>write_to_logfile\<close> the three tests of \<^verbatim>\<open>log_text\<close> are kept in the order of the
  source; after the first two fail the text is empty, which is what the third one asks.
\<close>

definition strip_dirs :: "string \<Rightarrow> string" where
  "strip_dirs path =
     (let filename = last (split_on CHR ''/'' path);
          filename = last (split_on BSL filename)
      in filename)"

definition write_to_logfile :: "env \<Rightarrow> callers \<Rightarrow> fs \<Rightarrow> string \<Rightarrow> fs" where
  "write_to_logfile env cs files log_text =
     (let stack = extract_stack cs \<lparr>frame_file = logger_file env, frame_line = 32\<rparr>;
          fr = second_to_last stack;
          filename = strip_dirs (frame_file fr);
          line_no = frame_line fr;
          log =
            (if log_text \<noteq> [] then
               ''['' @ now_date env @ '' '' @ now_time env @ '', '' @ filename @ '': ''
                 @ str_nat line_no @ ''] '' @ log_text @ '' ''
             else if log_text = START_SCRIPT then log_text
             else [])
      in append_text files LOGFILE (NL # log))"

definition error_handler :: "env \<Rightarrow> callers \<Rightarrow> fs \<Rightarrow> string \<Rightarrow> nat \<Rightarrow> string \<times> fs" where
  "error_handler env cs files err line_num =
     (let stack = extract_stack cs \<lparr>frame_file = logger_file env, frame_line = 49\<rparr>;
          fr = second_to_last stack;
          filename = strip_dirs (frame_file fr);
          e = ''  Error [File: '' @ filename @ '' Line: '' @ str_nat line_num @ ''] - '' @ err
      in (e, write_to_logfile env
               (called_from cs \<lparr>frame_file = logger_file env, frame_line = 55\<rparr>) files e))"

definition engage :: "env \<Rightarrow> callers \<Rightarrow> fs \<Rightarrow> fs" where
  "engage env cs files =
     (let stack = extract_stack cs \<lparr>frame_file = logger_file env, frame_line = 60\<rparr>;
          fr = second_to_last stack;
          filename = strip_dirs (frame_file fr)
      in write_to_logfile env
           (called_from cs \<lparr>frame_file = logger_file env, frame_line = 64\<rparr>) files
           (''Starting Script: '' @ filename))"

definition end_of_line :: "env \<Rightarrow> callers \<Rightarrow> fs \<Rightarrow> fs" where
  "end_of_line env cs files =
     (let stack = extract_stack cs \<lparr>frame_file = logger_file env, frame_line = 68\<rparr>;
          fr = second_to_last stack;
          filename = strip_dirs (frame_file fr)
      in write_to_logfile env
           (called_from cs \<lparr>frame_file = logger_file env, frame_line = 72\<rparr>) files
           (''Ending Script: '' @ filename))"

text \<open>
  Mode \<^verbatim>\<open>"w"\<close> truncates; \<^verbatim>\<open>csv.writer(file)\<close> alone writes nothing. The notice is
  logged before the file is opened.
\<close>

definition create_new_output_file ::
  "env \<Rightarrow> callers \<Rightarrow> fs \<Rightarrow> string \<Rightarrow> (error + unit) \<times> fs" where
  "create_new_output_file env cs files filename =
     (let files1 = write_to_logfile env
                     (called_from cs \<lparr>frame_file = logger_file env, frame_line = 76\<rparr>) files
                     (''Creating File: '' @ [DQ] @ filename @ [DQ])
      in case open_for_writing env filename of
           Inl e \<Rightarrow> (Inl e, files1)
         | Inr key \<Rightarrow> (Inr (), files1(key \<mapsto> [])))"

subsection \<open>Reading the last line of a file\<close>

text \<open>
  The file object of \<^verbatim>\<open>open(filename, "rb")\<close> is the content \<open>bs\<close> and a position. A seek
  to a negative position raises \<^verbatim>\<open>OSError\<close>; \<^verbatim>\<open>read(1)\<close> returns the byte at the
  position (nothing at the end of the file) and advances.
\<close>

definition seek_end :: "string \<Rightarrow> nat \<Rightarrow> error + nat" where
  "seek_end bs k = (if length bs < k then Inl OSError else Inr (length bs - k))"

definition read1 :: "string \<Rightarrow> nat \<Rightarrow> string" where
  "read1 bs pos = take 1 (drop pos bs)"

definition after_read1 :: "string \<Rightarrow> nat \<Rightarrow> nat" where
  "after_read1 bs pos = min (length bs) (pos + 1)"

text \<open>
  The loop \<^verbatim>\<open>while f.read(1) != b"\n": f.seek(-2, os.SEEK_CUR)\<close>, entered at position
  \<open>pos\<close>: it ends with the position after a newline, or with the \<^verbatim>\<open>OSError\<close> of the seek.
\<close>

function scan_back :: "string \<Rightarrow> nat \<Rightarrow> error + nat" where
  "scan_back bs pos =
     (if read1 bs pos \<noteq> [NL] then
        (if after_read1 bs pos < 2 then Inl OSError
         else scan_back bs (after_read1 bs pos - 2))
      else Inr (after_read1 bs pos))"
  by pat_completeness auto
termination
  by (relation "measure snd") (auto simp: after_read1_def)

declare scan_back.simps [simp del]

text \<open>\<^verbatim>\<open>f.readline()\<close> from a position: up to and including the next newline.\<close>

definition readline :: "string \<Rightarrow> nat \<Rightarrow> string" where
  "readline bs pos =
     (let rest = drop pos bs; l = takeWhile (\<lambda>c. c \<noteq> NL) rest
      in if length l < length rest then l @ [NL] else l)"

text \<open>
  The \<^verbatim>\<open>try\<close> block with its handler: the position \<^verbatim>\<open>readline\<close> starts from.
  \<^verbatim>\<open>except OSError\<close> seeks to the start of the file.
\<close>

definition start_of_last_line :: "string \<Rightarrow> error + nat" where
  "start_of_last_line bs =
     (case (case seek_end bs 2 of Inl e \<Rightarrow> Inl e | Inr p \<Rightarrow> scan_back bs p) of
        Inl OSError \<Rightarrow> Inr 0
      | Inl e \<Rightarrow> Inl e
      | Inr p \<Rightarrow> Inr p)"

text \<open>Opening a missing file for reading raises \<^verbatim>\<open>FileNotFoundError\<close>.\<close>

definition last_line_of_file :: "fs \<Rightarrow> string \<Rightarrow> error + string" where
  "last_line_of_file files filename =
     (case files filename of
        None \<Rightarrow> Inl FileNotFoundError
      | Some bs \<Rightarrow>
          (case start_of_last_line bs of
             Inl e \<Rightarrow> Inl e
           | Inr pos \<Rightarrow> Inr (readline bs pos)))"

subsection \<open>Writing a row to a data file\<close>

text \<open>
  The fields of a row are data from outside, and a Python \<^verbatim>\<open>str\<close> can hold what no text
  file can: a lone surrogate, which the encoder rejects. A field is therefore a list of
  characters each of which is plain text or such a surrogate.
\<close>

datatype pychar = Plain char | Lone_surrogate

type_synonym pystr = "pychar list"

definition plain :: "string \<Rightarrow> pystr" where
  "plain s = map Plain s"

text \<open>
  \<^verbatim>\<open>csv.writer\<close> with its default dialect (comma, double quote, quotes doubled, minimal
  quoting, line terminator CR LF) on a row given by the text of its fields; the file is
  opened with \<^verbatim>\<open>newline="\n"\<close>, so the terminator is written as it is.
\<close>

definition needs_quote :: "pystr \<Rightarrow> bool" where
  "needs_quote field =
     list_ex (\<lambda>c. c = Plain CHR '','' \<or> c = Plain DQ \<or> c = Plain CR \<or> c = Plain NL) field"

definition csv_field :: "pystr \<Rightarrow> pystr" where
  "csv_field field =
     (if needs_quote field
      then [Plain DQ]
             @ concat (map (\<lambda>c. if c = Plain DQ then [Plain DQ, Plain DQ] else [c]) field)
             @ [Plain DQ]
      else field)"

fun join_fields :: "pystr list \<Rightarrow> pystr" where
  "join_fields [] = []"
| "join_fields [f] = f"
| "join_fields (f # g # fs) = f @ [Plain CHR '',''] @ join_fields (g # fs)"

definition csv_record :: "pystr list \<Rightarrow> pystr" where
  "csv_record row =
     (if row = [[]] then [Plain DQ, Plain DQ] else join_fields (map csv_field row))
       @ [Plain CR, Plain NL]"

text \<open>
  The encoder of the file: the text of a record, or \<^verbatim>\<open>UnicodeEncodeError\<close> at a
  surrogate. It runs inside \<^verbatim>\<open>writerow\<close>, so that a record it rejects raises and nothing
  of it is written.
\<close>

fun encode_text :: "pystr \<Rightarrow> error + string" where
  "encode_text [] = Inr []"
| "encode_text (Plain c # s) = (case encode_text s of Inl e \<Rightarrow> Inl e | Inr t \<Rightarrow> Inr (c # t))"
| "encode_text (Lone_surrogate # s) = Inl UnicodeEncodeError"

definition writerow :: "pystr list \<Rightarrow> error + string" where
  "writerow row = encode_text (csv_record row)"

text \<open>
  \<^verbatim>\<open>writer.writerow("UnicodeEncodeError")\<close> passes a string as the row: each of its
  characters is a field.
\<close>

definition placeholder_row :: "pystr list" where
  "placeholder_row = map (\<lambda>c. [Plain c]) ''UnicodeEncodeError''"

text \<open>The notice \<^verbatim>\<open>f'Writing Data to: "{filename}"'\<close>.\<close>

definition writing_data_to :: "string \<Rightarrow> string" where
  "writing_data_to filename = ''Writing Data to: '' @ [DQ] @ filename @ [DQ]"

text \<open>
  The \<^verbatim>\<open>with\<close> block of \<^verbatim>\<open>write_to_file\<close>, lines 86 to 91. The \<^verbatim>\<open>open\<close> of line 86
  stands outside the \<^verbatim>\<open>try\<close>: when it raises, the block raises and no file changes.
  Otherwise the data file exists from then on, the row is written, and
  \<^verbatim>\<open>except UnicodeEncodeError\<close> writes the placeholder instead.
\<close>

definition append_entry :: "env \<Rightarrow> fs \<Rightarrow> string \<Rightarrow> pystr list \<Rightarrow> (error + unit) \<times> fs" where
  "append_entry env files filename entry =
     (case open_for_writing env filename of
        Inl e \<Rightarrow> (Inl e, files)
      | Inr key \<Rightarrow>
          (let append_file = append_text files key []
           in case writerow entry of
                Inr written \<Rightarrow> (Inr (), append_text append_file key written)
              | Inl UnicodeEncodeError \<Rightarrow>
                  (case writerow placeholder_row of
                     Inr written \<Rightarrow> (Inr (), append_text append_file key written)
                   | Inl e \<Rightarrow> (Inl e, append_file))
              | Inl e \<Rightarrow> (Inl e, append_file)))"

definition write_to_file ::
  "env \<Rightarrow> callers \<Rightarrow> fs \<Rightarrow> string \<Rightarrow> pystr list \<Rightarrow> (error + unit) \<times> fs" where
  "write_to_file env cs files filename entry =
     (let log_text = writing_data_to filename in
      case last_line_of_file files LOGFILE of
        Inl e \<Rightarrow> (Inl e, files)
      | Inr tail_line \<Rightarrow>
          (let files1 =
                 (if \<not> sublist log_text tail_line
                  then write_to_logfile env
                         (called_from cs \<lparr>frame_file = logger_file env, frame_line = 85\<rparr>)
                         files log_text
                  else files)
           in append_entry env files1 filename entry))"

section \<open>main.py\<close>

text \<open>
  The values \<^verbatim>\<open>parse_arguments\<close> stores in the namespace: \<^verbatim>\<open>None\<close>, a string, the
  dictionary of \<^verbatim>\<open>--input_dictionary\<close>, or a list of strings. A Python \<^verbatim>\<open>dict\<close> is an
  association list in insertion order with distinct keys.
\<close>

datatype pyval = PyNone | Str string | Dict "(string \<times> string) list" | StrList "string list"

type_synonym kwargs = "(string \<times> pyval) list"

fun dict_setitem :: "('k \<times> 'v) list \<Rightarrow> 'k \<Rightarrow> 'v \<Rightarrow> ('k \<times> 'v) list" where
  "dict_setitem [] k v = [(k, v)]"
| "dict_setitem ((k', v') # d) k v =
     (if k' = k then (k, v) # d else (k', v') # dict_setitem d k v)"

text \<open>
  \<^verbatim>\<open>dict(items)\<close> on a sequence of lists: an item that has not exactly two elements raises
  \<^verbatim>\<open>ValueError\<close>.
\<close>

fun dict_from :: "(string \<times> string) list \<Rightarrow> string list list \<Rightarrow> error + (string \<times> string) list" where
  "dict_from d [] = Inr d"
| "dict_from d (item # items) =
     (case item of
        [k, v] \<Rightarrow> dict_from (dict_setitem d k v) items
      | _ \<Rightarrow> Inl ValueError)"

definition parse_key_value_pairs :: "string \<Rightarrow> error + (string \<times> string) list" where
  "parse_key_value_pairs pairs_str =
     (case dict_from [] (map (split_on CHR '':'') (split_on CHR '','' pairs_str)) of
        Inr d \<Rightarrow> Inr d
      | Inl e \<Rightarrow> Inl (ArgumentTypeError (''Invalid key:value pair format: '' @ pairs_str)))"

text \<open>
  The namespace \<^verbatim>\<open>parse_arguments\<close> returns: three required strings and five optional
  values that are \<^verbatim>\<open>None\<close> when the option is not given. \<open>vars_args\<close> is
  \<^verbatim>\<open>vars(args)\<close>.
\<close>

record namespace =
  operation :: string
  api_key :: string
  service_name :: string
  dictionary_name :: "string option"
  acl_name :: "string option"
  input_dictionary :: "(string \<times> string) list option"
  dictionary_items :: "string list option"
  ips :: "string list option"

definition or_none :: "('a \<Rightarrow> pyval) \<Rightarrow> 'a option \<Rightarrow> pyval" where
  "or_none con x = (case x of None \<Rightarrow> PyNone | Some v \<Rightarrow> con v)"

definition vars_args :: "namespace \<Rightarrow> kwargs" where
  "vars_args args =
     [(''operation'', Str (operation args)),
      (''api_key'', Str (api_key args)),
      (''service_name'', Str (service_name args)),
      (''dictionary_name'', or_none Str (dictionary_name args)),
      (''acl_name'', or_none Str (acl_name args)),
      (''input_dictionary'', or_none Dict (input_dictionary args)),
      (''dictionary_items'', or_none StrList (dictionary_items args)),
      (''ips'', or_none StrList (ips args))]"

text \<open>
  The handlers live in the module \<^verbatim>\<open>fastly\<close>, which is a collaborator: a handler is
  given by the parameter names of its signature and by what a call with keyword arguments
  does to the files and returns (the truth value of its result) or raises.
\<close>

datatype outcome = Returned bool | Raised error

record handler =
  parameters :: "string list"
  call :: "kwargs \<Rightarrow> fs \<Rightarrow> outcome \<times> fs"

record fastly =
  upload_fastly_dictionary_entries :: handler
  remove_fastly_dictionary_entries :: handler
  upload_fastly_acl_entries :: handler
  remove_all_acl_entries :: handler
  remove_acl_entries :: handler
  backup_fastly_dictionary :: handler
  backup_acl :: handler
  remove_old_fastly_dictionary_entries :: handler
  remove_all_dictionary_entries :: handler

definition OPERATIONS :: "fastly \<Rightarrow> (string \<times> handler) list" where
  "OPERATIONS m =
     [(''add_entries_to_dictionary'', upload_fastly_dictionary_entries m),
      (''remove_entries_from_dictionary'', remove_fastly_dictionary_entries m),
      (''add_entries_to_acl'', upload_fastly_acl_entries m),
      (''remove_all_acl_entries'', remove_all_acl_entries m),
      (''remove_acl_entries'', remove_acl_entries m),
      (''backup_fastly_dictionary'', backup_fastly_dictionary m),
      (''backup_acl'', backup_acl m),
      (''remove_old_fastly_dictionary_entries'', remove_old_fastly_dictionary_entries m),
      (''remove_all_dictionary_entries'', remove_all_dictionary_entries m)]"

text \<open>
  The state \<^verbatim>\<open>main\<close> runs in: the files, and a record of the keyword arguments of every
  handler invocation, kept only to observe what a handler was called with.
\<close>

record world =
  files :: fs
  calls :: "kwargs list"

definition invoke :: "handler \<Rightarrow> kwargs \<Rightarrow> world \<Rightarrow> outcome \<times> world" where
  "invoke h kw w =
     (let (r, files1) = call h kw (files w)
      in (r, \<lparr>files = files1, calls = calls w @ [kw]\<rparr>))"

text \<open>The loop of lines 49 to 55 over the declared parameter names.\<close>

fun bind_arguments :: "string list \<Rightarrow> kwargs \<Rightarrow> kwargs \<Rightarrow> kwargs" where
  "bind_arguments [] vars operation_arguments = operation_arguments"
| "bind_arguments (parameter_name # rest) vars operation_arguments =
     bind_arguments rest vars
       (if (case map_of vars parameter_name of None \<Rightarrow> False | Some v \<Rightarrow> v \<noteq> PyNone)
        then dict_setitem operation_arguments parameter_name (the (map_of vars parameter_name))
        else operation_arguments)"

text \<open>
  \<^verbatim>\<open>main\<close> after \<^verbatim>\<open>parse_arguments\<close>, on the namespace it returned. An exception raised
  inside the \<^verbatim>\<open>try\<close> is raised again as \<^verbatim>\<open>Exception(e)\<close>.
\<close>

definition main :: "env \<Rightarrow> callers \<Rightarrow> fastly \<Rightarrow> namespace \<Rightarrow> world \<Rightarrow> (error + unit) \<times> world" where
  "main env cs m args w =
     (case map_of (OPERATIONS m) (operation args) of
        Some op \<Rightarrow>
          (let operation_parameters = parameters op;
               operation_arguments = bind_arguments operation_parameters (vars_args args) [];
               (result, w1) = invoke op operation_arguments w
           in case result of
                Raised e \<Rightarrow> (Inl (Exception_from e), w1)
              | Returned operation_success \<Rightarrow>
                  if \<not> operation_success then
                    (let error_message = ''Operation, '' @ operation args @ '', has failed.'';
                         here = called_from cs \<lparr>frame_file = main_file env, frame_line = 62\<rparr>;
                         (e, files1) =
                           error_handler env here (files w1) error_message (line_number here)
                     in (Inl (Exception_from (Exception error_message)), w1\<lparr>files := files1\<rparr>))
                  else (Inr (), w1))
      | None \<Rightarrow>
          (let error_message =
                 ''Operation, '' @ [SQ] @ operation args @ [SQ]
                   @ '', does not exist or is unavailable.'';
               here = called_from cs \<lparr>frame_file = main_file env, frame_line = 70\<rparr>;
               (e, files1) = error_handler env here (files w) error_message (line_number here)
           in (Inl (Exception error_message), w\<lparr>files := files1\<rparr>)))"


section \<open>The format of the specification and example inputs\<close>

text \<open>
  The entry format the specification gives for a log line:
  \<^verbatim>\<open>[MM/DD/YYYY HH:MM:SS AM/PM TZ, <caller_file>: <caller_line>] <text> \<close>, the date and
  time being what the clock returns for the two formats.
\<close>

definition log_entry :: "env \<Rightarrow> string \<Rightarrow> nat \<Rightarrow> string \<Rightarrow> string" where
  "log_entry env caller_file caller_line text =
     ''['' @ now_date env @ '' '' @ now_time env @ '', '' @ caller_file @ '': ''
       @ str_nat caller_line @ ''] '' @ text @ '' ''"


text \<open>The content of a file, empty when the file does not exist.\<close>

definition contents :: "fs \<Rightarrow> string \<Rightarrow> string" where
  "contents fsys path = (case fsys path of None \<Rightarrow> [] | Some old \<Rightarrow> old)"

text \<open>
  An environment and callers to evaluate the definitions on. In the example environment
  \<^verbatim>\<open>./log.txt\<close> is the log file, the empty name and a name in the missing directory
  \<^verbatim>\<open>nodir\<close> cannot be opened, and every other path is a file of its own.
\<close>

definition example_strftime :: "string \<Rightarrow> string" where
  "example_strftime fmt = (if fmt = ''%m/%d/%Y'' then ''11/03/2026'' else ''03:08:00 PM UTC'')"

definition example_locate :: "string \<Rightarrow> error + string" where
  "example_locate path =
     (if path = [] \<or> path = ''nodir/out.csv'' then Inl FileNotFoundError
      else if path = ''./log.txt'' then Inr ''log.txt''
      else Inr path)"

definition example_env :: env where
  "example_env =
     \<lparr>strftime = example_strftime, logger_file = ''/app/logger.py'',
      main_file = ''/app/main.py'', locate = example_locate\<rparr>"

definition example_caller :: callers where
  "example_caller = ([], \<lparr>frame_file = ''C:'' @ [BSL] @ ''tools/run'' @ [BSL] @ ''job.py'', frame_line = 7\<rparr>)"

definition main_caller :: callers where
  "main_caller = ([], \<lparr>frame_file = ''/app/main.py'', frame_line = 133\<rparr>)"

definition example_main_frames :: callers where
  "example_main_frames =
     ([\<lparr>frame_file = ''/app/main.py'', frame_line = 133\<rparr>],
      \<lparr>frame_file = ''/app/main.py'', frame_line = 70\<rparr>)"


text \<open>
  Handlers that leave the files alone and return a fixed truth value, with parameter names
  as the operations of the command line suggest them, a namespace and a starting state.
\<close>

definition probe :: "string list \<Rightarrow> bool \<Rightarrow> handler" where
  "probe names ok = \<lparr>parameters = names, call = (\<lambda>kw fsys. (Returned ok, fsys))\<rparr>"

definition example_fastly :: fastly where
  "example_fastly =
     \<lparr>upload_fastly_dictionary_entries =
        probe [''api_key'', ''service_name'', ''dictionary_name'', ''input_dictionary''] True,
      remove_fastly_dictionary_entries =
        probe [''api_key'', ''service_name'', ''dictionary_name'', ''dictionary_items''] True,
      upload_fastly_acl_entries = probe [''api_key'', ''service_name'', ''acl_name'', ''ips''] True,
      remove_all_acl_entries = probe [''api_key'', ''service_name'', ''acl_name''] True,
      remove_acl_entries = probe [''api_key'', ''service_name'', ''acl_name'', ''ips''] True,
      backup_fastly_dictionary = probe [''api_key'', ''service_name'', ''dictionary_name''] False,
      backup_acl = probe [''api_key'', ''service_name'', ''acl_name''] True,
      remove_old_fastly_dictionary_entries =
        probe [''api_key'', ''service_name'', ''dictionary_name''] True,
      remove_all_dictionary_entries =
        probe [''api_key'', ''service_name'', ''dictionary_name''] True\<rparr>"

definition example_args :: "string \<Rightarrow> namespace" where
  "example_args name =
     \<lparr>operation = name, api_key = ''key'', service_name = ''shop'',
      dictionary_name = None, acl_name = Some ''blocked'', input_dictionary = None,
      dictionary_items = None, ips = Some [''10.0.0.1'']\<rparr>"

definition example_world :: world where
  "example_world = \<lparr>files = map_of [], calls = []\<rparr>"

text \<open>
  A handler that records the keyword arguments it receives, in the file
  \<^verbatim>\<open>received.txt\<close>: each name, marked when its value is \<^verbatim>\<open>None\<close>. The module
  \<open>recording_fastly\<close> has it for every operation.
\<close>

definition received :: "kwargs \<Rightarrow> string" where
  "received kw =
     concat (map (\<lambda>(name, v). name @ (if v = PyNone then ''=None;'' else '';'')) kw)"

definition recording_probe :: "string list \<Rightarrow> handler" where
  "recording_probe names =
     \<lparr>parameters = names,
      call = (\<lambda>kw fsys. (Returned True, fsys(''received.txt'' \<mapsto> received kw)))\<rparr>"

definition recording_fastly :: "string list \<Rightarrow> fastly" where
  "recording_fastly names =
     \<lparr>upload_fastly_dictionary_entries = recording_probe names,
      remove_fastly_dictionary_entries = recording_probe names,
      upload_fastly_acl_entries = recording_probe names,
      remove_all_acl_entries = recording_probe names,
      remove_acl_entries = recording_probe names,
      backup_fastly_dictionary = recording_probe names,
      backup_acl = recording_probe names,
      remove_old_fastly_dictionary_entries = recording_probe names,
      remove_all_dictionary_entries = recording_probe names\<rparr>"

section \<open>Properties of the logger\<close>

subsection \<open>The backward scan\<close>

lemma read1_nth: "pos < length bs \<Longrightarrow> read1 bs pos = [bs ! pos]"
  unfolding read1_def by (metis Cons_nth_drop_Suc One_nat_def take0 take_Suc_Cons)

lemma after_read1_lt: "pos < length bs \<Longrightarrow> after_read1 bs pos = Suc pos"
  by (simp add: after_read1_def)

lemma scan_back_hit: "pos < length bs \<Longrightarrow> bs ! pos = NL \<Longrightarrow> scan_back bs pos = Inr (Suc pos)"
  by (subst scan_back.simps) (simp add: read1_nth after_read1_lt)

lemma scan_back_miss0: "0 < length bs \<Longrightarrow> bs ! 0 \<noteq> NL \<Longrightarrow> scan_back bs 0 = Inl OSError"
  by (subst scan_back.simps) (simp add: read1_nth after_read1_lt)

lemma scan_back_miss:
  "Suc pos < length bs \<Longrightarrow> bs ! Suc pos \<noteq> NL \<Longrightarrow> scan_back bs (Suc pos) = scan_back bs pos"
  by (subst scan_back.simps) (simp add: read1_nth after_read1_lt)

lemma scan_back_none:
  "pos < length bs \<Longrightarrow> NL \<notin> set (take (Suc pos) bs) \<Longrightarrow> scan_back bs pos = Inl OSError"
proof (induction pos)
  case 0
  then show ?case
    by (cases bs) (auto simp: scan_back_miss0)
next
  case (Suc pos)
  have b: "bs ! Suc pos \<noteq> NL"
    using Suc.prems by (auto simp: take_Suc_conv_app_nth)
  have c: "NL \<notin> set (take (Suc pos) bs)"
    using Suc.prems by (auto simp: take_Suc_conv_app_nth[of "Suc pos"])
  show ?case
    using Suc.IH[OF _ c] Suc.prems(1) b by (simp add: scan_back_miss)
qed

lemma scan_back_found:
  "length xs \<le> pos \<Longrightarrow> pos < length (xs @ NL # ys) \<Longrightarrow> NL \<notin> set (take (pos - length xs) ys)
   \<Longrightarrow> scan_back (xs @ NL # ys) pos = Inr (Suc (length xs))"
proof (induction "pos - length xs" arbitrary: pos)
  case 0
  then have "pos = length xs" by simp
  then show ?case
    by (simp add: scan_back_hit)
next
  case (Suc d)
  let ?bs = "xs @ NL # ys"
  obtain q where q: "pos = Suc q" "length xs \<le> q" "d = q - length xs"
    using Suc.hyps(2) by (cases pos) auto
  have lt: "q - length xs < length ys" using Suc.prems(2) q by simp
  have nth: "?bs ! pos = ys ! (q - length xs)"
    using q by (simp add: nth_append Suc_diff_le)
  have ne: "ys ! (q - length xs) \<noteq> NL"
    using Suc.prems(3) q lt by (auto simp: Suc_diff_le take_Suc_conv_app_nth)
  have rest: "NL \<notin> set (take (q - length xs) ys)"
    using Suc.prems(3) q lt by (auto simp: Suc_diff_le take_Suc_conv_app_nth)
  have ih: "scan_back ?bs q = Inr (Suc (length xs))"
    using Suc.hyps(1)[of q] q rest Suc.prems(2) by simp
  have "scan_back ?bs (Suc q) = scan_back ?bs q"
    using Suc.prems(2) nth ne q by (intro scan_back_miss) simp_all
  then show ?case using ih q by simp
qed

lemma readline_no_newline:
  assumes "NL \<notin> set (drop pos bs)"
  shows "readline bs pos = drop pos bs"
proof -
  have tw: "takeWhile (\<lambda>c. c \<noteq> NL) (drop pos bs) = drop pos bs"
    using assms by (intro takeWhile_eq_all_conv[THEN iffD2]) auto
  show ?thesis unfolding readline_def Let_def tw by simp
qed

lemma readline_last_newline:
  assumes "drop pos bs = l @ [NL]" "NL \<notin> set l"
  shows "readline bs pos = l @ [NL]"
proof -
  have "takeWhile (\<lambda>c. c \<noteq> NL) l = l"
    using assms(2) by (intro takeWhile_eq_all_conv[THEN iffD2]) auto
  then have tw: "takeWhile (\<lambda>c. c \<noteq> NL) (l @ [NL]) = l"
    using assms(2) by (simp add: takeWhile_tail)
  show ?thesis unfolding readline_def Let_def assms(1) tw by simp
qed

lemma start_short: "length bs < 2 \<Longrightarrow> start_of_last_line bs = Inr 0"
  by (simp add: start_of_last_line_def seek_end_def)

lemma start_none:
  assumes "NL \<notin> set (butlast bs)"
  shows "start_of_last_line bs = Inr 0"
proof (cases "length bs < 2")
  case True then show ?thesis by (rule start_short)
next
  case False
  have "take (Suc (length bs - 2)) bs = butlast bs"
    using False by (simp add: butlast_conv_take Suc_diff_Suc numeral_2_eq_2)
  then have "scan_back bs (length bs - 2) = Inl OSError"
    using False assms by (intro scan_back_none) auto
  then show ?thesis using False by (simp add: start_of_last_line_def seek_end_def)
qed

lemma start_found:
  assumes "butlast bs = xs @ NL # ys" "NL \<notin> set ys"
  shows "start_of_last_line bs = Inr (Suc (length xs))"
proof -
  have ne: "bs \<noteq> []" using assms(1) by auto
  then have bs: "bs = xs @ NL # (ys @ [last bs])"
    using assms(1) by (metis append_Cons append_assoc append_butlast_last_id)
  have len: "length bs = length xs + length ys + 2" by (subst bs) simp
  have "scan_back (xs @ NL # (ys @ [last bs])) (length bs - 2) = Inr (Suc (length xs))"
    using assms(2) len by (intro scan_back_found) auto
  then have "scan_back bs (length bs - 2) = Inr (Suc (length xs))"
    using bs by simp
  then show ?thesis using len by (simp add: start_of_last_line_def seek_end_def)
qed

lemma readline_tail:
  assumes "NL \<notin> set ys"
  shows "readline (pre @ ys @ [c]) (length pre) = ys @ [c]"
proof (cases "c = NL")
  case True
  then show ?thesis using assms by (simp add: readline_last_newline)
next
  case False
  then show ?thesis using assms by (simp add: readline_no_newline)
qed

lemma last_line_single:
  assumes "fsys f = Some bs" "NL \<notin> set (butlast bs)"
  shows "last_line_of_file fsys f = Inr bs"
proof (cases "bs = []")
  case True
  then show ?thesis using assms by (simp add: last_line_of_file_def start_short readline_def)
next
  case False
  then have "bs = [] @ butlast bs @ [last bs]" by simp
  then have "readline bs 0 = bs"
    using readline_tail[OF assms(2), of "[]" "last bs"] by simp
  then show ?thesis using assms by (simp add: last_line_of_file_def start_none)
qed

lemma last_line_multi:
  assumes "fsys f = Some bs" "butlast bs = xs @ NL # ys" "NL \<notin> set ys"
  shows "last_line_of_file fsys f = Inr (ys @ [last bs])"
proof -
  have ne: "bs \<noteq> []" using assms(2) by auto
  then have bs: "bs = (xs @ [NL]) @ ys @ [last bs]"
    using assms(2) by (metis append_Cons append_Nil append_assoc append_butlast_last_id)
  have "readline ((xs @ [NL]) @ ys @ [last bs]) (length (xs @ [NL])) = ys @ [last bs]"
    using assms(3) by (rule readline_tail)
  then have "readline bs (Suc (length xs)) = ys @ [last bs]"
    using bs by simp
  then show ?thesis
    using assms by (simp add: last_line_of_file_def start_found[OF assms(2,3)])
qed

subsection \<open>Log lines and file names\<close>

lemma second_to_last_extract [simp]: "second_to_last (extract_stack cs own) = snd cs"
  by (simp add: second_to_last_def extract_stack_def nth_append)

lemma write_to_logfile_eq:
  "write_to_logfile env cs fsys text =
     append_text fsys LOGFILE
       (NL # (if text = [] then [] else log_entry env (strip_dirs (frame_file (snd cs))) (frame_line (snd cs)) text))"
  by (simp add: write_to_logfile_def log_entry_def Let_def)

lemma error_handler_eq:
  "error_handler env cs fsys err n =
     (''  Error [File: '' @ strip_dirs (frame_file (snd cs)) @ '' Line: '' @ str_nat n @ ''] - '' @ err,
      append_text fsys LOGFILE
        (NL # log_entry env (strip_dirs (logger_file env)) 55
           (''  Error [File: '' @ strip_dirs (frame_file (snd cs)) @ '' Line: '' @ str_nat n @ ''] - '' @ err)))"
  by (simp add: error_handler_def write_to_logfile_eq called_from_def Let_def)

lemma engage_eq:
  "engage env cs fsys =
     append_text fsys LOGFILE
       (NL # log_entry env (strip_dirs (logger_file env)) 64
          (''Starting Script: '' @ strip_dirs (frame_file (snd cs))))"
  by (simp add: engage_def write_to_logfile_eq called_from_def Let_def)

lemma end_of_line_eq:
  "end_of_line env cs fsys =
     append_text fsys LOGFILE
       (NL # log_entry env (strip_dirs (logger_file env)) 72
          (''Ending Script: '' @ strip_dirs (frame_file (snd cs))))"
  by (simp add: end_of_line_def write_to_logfile_eq called_from_def Let_def)

lemma create_new_output_file_eq:
  "create_new_output_file env cs fsys filename =
     (case open_for_writing env filename of
        Inl e \<Rightarrow>
          (Inl e,
           append_text fsys LOGFILE
             (NL # log_entry env (strip_dirs (logger_file env)) 76
                (''Creating File: '' @ [DQ] @ filename @ [DQ])))
      | Inr key \<Rightarrow>
          (Inr (),
           (append_text fsys LOGFILE
              (NL # log_entry env (strip_dirs (logger_file env)) 76
                 (''Creating File: '' @ [DQ] @ filename @ [DQ])))(key \<mapsto> [])))"
  by (simp add: create_new_output_file_def write_to_logfile_eq called_from_def Let_def
      split: sum.splits)

lemma split_on_nonempty [simp]: "split_on sep s \<noteq> []"
  by (induction s) (auto split: list.splits)

lemma split_on_no_sep: "p \<in> set (split_on sep s) \<Longrightarrow> sep \<notin> set p"
proof (induction s arbitrary: p)
  case Nil then show ?case by simp
next
  case (Cons c s)
  show ?case
  proof (cases "c = sep")
    case True
    then show ?thesis using Cons by auto
  next
    case False
    obtain q qs where q: "split_on sep s = q # qs" by (cases "split_on sep s") auto
    then show ?thesis using Cons False by auto
  qed
qed

lemma split_on_subset: "p \<in> set (split_on sep s) \<Longrightarrow> set p \<subseteq> set s"
proof (induction s arbitrary: p)
  case Nil then show ?case by simp
next
  case (Cons c s)
  obtain q qs where q: "split_on sep s = q # qs" by (cases "split_on sep s") auto
  have "set q \<subseteq> set s" "\<And>r. r \<in> set qs \<Longrightarrow> set r \<subseteq> set s"
    using Cons.IH q by auto
  then show ?case using Cons.prems q by (fastforce split: if_splits)
qed

lemma strip_dirs_no_separator: "CHR ''/'' \<notin> set (strip_dirs path) \<and> BSL \<notin> set (strip_dirs path)"
proof -
  let ?a = "last (split_on CHR ''/'' path)"
  have a: "CHR ''/'' \<notin> set ?a" by (intro split_on_no_sep[of _ _ path]) simp
  have "set (strip_dirs path) \<subseteq> set ?a"
    unfolding strip_dirs_def Let_def by (intro split_on_subset[of _ BSL]) simp
  moreover have "BSL \<notin> set (strip_dirs path)"
    unfolding strip_dirs_def Let_def by (intro split_on_no_sep[of _ _ ?a]) simp
  ultimately show ?thesis using a by auto
qed

subsection \<open>Appending to files\<close>

lemma append_text_at [simp]:
  "append_text fsys path text path = Some ((case fsys path of None \<Rightarrow> [] | Some old \<Rightarrow> old) @ text)"
  by (simp add: append_text_def)

lemma append_text_other [simp]: "q \<noteq> path \<Longrightarrow> append_text fsys path text q = fsys q"
  by (simp add: append_text_def)

lemma append_text_twice [simp]:
  "append_text (append_text fsys path a) path b = append_text fsys path (a @ b)"
  by (simp add: append_text_def)

lemma append_text_inject: "append_text fsys path a = append_text fsys path b \<Longrightarrow> a = b"
  by (drule fun_cong[of _ _ path]) simp

lemma log_entry_head: "log_entry env f n text = CHR ''['' # tl (log_entry env f n text)"
  by (simp add: log_entry_def)

text \<open>
  Claim C2 (the code differs): \<^verbatim>\<open>write_to_logfile(START_SCRIPT)\<close> should write the sentinel
  verbatim. The sentinel is not empty, so the first branch formats it like any other text and
  the branch meant for it is never reached: what is appended is the newline and the sentinel
  with the timestamp and caller prefix, not the newline and the sentinel alone. The rest of
  the claim holds: every non-empty text is appended as a newline and the formatted entry, and
  the empty text as a newline only.
\<close>

theorem write_to_logfile_start_script_prefixed:
  "write_to_logfile env cs fsys START_SCRIPT =
     append_text fsys LOGFILE
       (NL # log_entry env (strip_dirs (frame_file (snd cs))) (frame_line (snd cs)) START_SCRIPT)
   \<and> write_to_logfile env cs fsys START_SCRIPT \<noteq> append_text fsys LOGFILE (NL # START_SCRIPT)
   \<and> write_to_logfile env cs fsys (c # text) =
       append_text fsys LOGFILE
         (NL # log_entry env (strip_dirs (frame_file (snd cs))) (frame_line (snd cs)) (c # text))
   \<and> write_to_logfile env cs fsys [] = append_text fsys LOGFILE [NL]"
proof -
  have ne: "START_SCRIPT \<noteq> []" by (simp add: START_SCRIPT_def)
  have eq: "write_to_logfile env cs fsys START_SCRIPT =
     append_text fsys LOGFILE
       (NL # log_entry env (strip_dirs (frame_file (snd cs))) (frame_line (snd cs)) START_SCRIPT)"
    using ne by (simp add: write_to_logfile_eq)
  have "log_entry env (strip_dirs (frame_file (snd cs))) (frame_line (snd cs)) START_SCRIPT \<noteq> START_SCRIPT"
    by (subst log_entry_head) (simp add: START_SCRIPT_def)
  then have "write_to_logfile env cs fsys START_SCRIPT \<noteq> append_text fsys LOGFILE (NL # START_SCRIPT)"
    using eq by (auto dest: append_text_inject)
  then show ?thesis using eq by (simp add: write_to_logfile_eq)
qed

text \<open>
  Claim C5, as stated: the attribution of a logged line names the caller of the logging
  facility however deep the logger's own call chain is, so that the line \<^verbatim>\<open>error_handler\<close>
  logs is attributed to the caller of \<^verbatim>\<open>error_handler\<close>. Called from line 70 of
  \<^verbatim>\<open>/app/main.py\<close>, the line is prefixed with \<^verbatim>\<open>logger.py: 55\<close> instead.
\<close>

theorem error_handler_prefix_counterexample:
  "snd (error_handler example_env example_main_frames (map_of []) ''boom'' 70) LOGFILE
     = Some (NL # log_entry example_env ''logger.py'' 55 ''  Error [File: main.py Line: 70] - boom'')
   \<and> snd (error_handler example_env example_main_frames (map_of []) ''boom'' 70) LOGFILE
     \<noteq> Some (NL # log_entry example_env ''main.py'' 70 ''  Error [File: main.py Line: 70] - boom'')"
  by code_simp

text \<open>
  Claim C5, amended: the prefix of a logged line names the second-to-last frame of the stack
  captured in \<^verbatim>\<open>write_to_logfile\<close>, which is the immediate caller of
  \<^verbatim>\<open>write_to_logfile\<close>: its file name without directories (neither slash remains) and its
  line. A line logged through \<^verbatim>\<open>error_handler\<close> is therefore prefixed with the logger's own
  file and line 55; the caller of \<^verbatim>\<open>error_handler\<close> is named inside the message, with the
  line number that was passed in.
\<close>

theorem log_attribution_immediate_caller:
  assumes "text \<noteq> []"
  shows "second_to_last (extract_stack cs own) = snd cs
    \<and> write_to_logfile env cs fsys text =
        append_text fsys LOGFILE
          (NL # log_entry env (strip_dirs (frame_file (snd cs))) (frame_line (snd cs)) text)
    \<and> CHR ''/'' \<notin> set (strip_dirs (frame_file (snd cs)))
    \<and> BSL \<notin> set (strip_dirs (frame_file (snd cs)))
    \<and> error_handler env cs fsys err n =
        (''  Error [File: '' @ strip_dirs (frame_file (snd cs)) @ '' Line: '' @ str_nat n @ ''] - '' @ err,
         append_text fsys LOGFILE
           (NL # log_entry env (strip_dirs (logger_file env)) 55
              (''  Error [File: '' @ strip_dirs (frame_file (snd cs)) @ '' Line: '' @ str_nat n
                 @ ''] - '' @ err)))"
  using assms strip_dirs_no_separator[of "frame_file (snd cs)"]
  by (simp add: write_to_logfile_eq error_handler_eq)

theorem log_attribution_immediate_caller_witness:
  "write_to_logfile example_env example_caller (map_of []) ''hello'' LOGFILE =
     Some (NL # ''[11/03/2026 03:08:00 PM UTC, job.py: 7] hello '')
   \<and> error_handler example_env example_main_frames (map_of []) ''boom'' 70 =
       (''  Error [File: main.py Line: 70] - boom'',
        append_text (map_of []) LOGFILE
          (NL # ''[11/03/2026 03:08:00 PM UTC, logger.py: 55]   Error [File: main.py Line: 70] - boom ''))"
proof -
  have ne: "''hello'' \<noteq> []" by simp
  have a: "strip_dirs (frame_file (snd example_caller)) = ''job.py''" by code_simp
  have b: "frame_line (snd example_caller) = 7" by code_simp
  have c: "log_entry example_env ''job.py'' 7 ''hello'' = ''[11/03/2026 03:08:00 PM UTC, job.py: 7] hello ''"
    by code_simp
  have d: "strip_dirs (frame_file (snd example_main_frames)) = ''main.py''" by code_simp
  have e: "strip_dirs (logger_file example_env) = ''logger.py''" by code_simp
  have f: "str_nat 70 = ''70''" by code_simp
  have g: "log_entry example_env ''logger.py'' 55 ''  Error [File: main.py Line: 70] - boom''
      = ''[11/03/2026 03:08:00 PM UTC, logger.py: 55]   Error [File: main.py Line: 70] - boom ''"
    by code_simp
  show ?thesis
    using log_attribution_immediate_caller[OF ne, of example_caller _ example_env "map_of []" "[]" 0]
      log_attribution_immediate_caller[OF ne, of example_main_frames _ example_env "map_of []" "''boom''" 70]
    by (simp add: a b c d e f g)
qed

text \<open>
  Claim C10: \<^verbatim>\<open>write_to_file\<close> reads the last line of the log file first; while the log file
  does not exist the call raises \<^verbatim>\<open>FileNotFoundError\<close> and leaves every file as it was, the
  target data file included.
\<close>

theorem write_to_file_needs_log_file:
  "fsys LOGFILE = None \<Longrightarrow> write_to_file env cs fsys filename entry = (Inl FileNotFoundError, fsys)"
  by (simp add: write_to_file_def last_line_of_file_def)

theorem write_to_file_needs_log_file_witness:
  "write_to_file example_env example_caller (map_of [(''out.csv'', ''x'')]) ''out.csv'' [plain ''a'']
     = (Inl FileNotFoundError, map_of [(''out.csv'', ''x'')])"
  using write_to_file_needs_log_file[of "map_of [(''out.csv'', ''x'')]" example_env example_caller "''out.csv''" "[plain ''a'']"]
  by (simp add: LOGFILE_def)

subsection \<open>The last line of a file\<close>

text \<open>
  Claim C4, as stated: on a file of several lines \<^verbatim>\<open>last_line_of_file\<close> returns the final
  line without its trailing newline. On the two lines \<^verbatim>\<open>a\<close> and \<^verbatim>\<open>b\<close>, each ended by a
  newline, it returns \<^verbatim>\<open>b\<close> with the newline.
\<close>

theorem last_line_keeps_newline_counterexample:
  "last_line_of_file (map_of [(''data.txt'', ''a\<newline>b\<newline>'')]) ''data.txt'' = Inr ''b\<newline>''
   \<and> last_line_of_file (map_of [(''data.txt'', ''a\<newline>b\<newline>'')]) ''data.txt'' \<noteq> Inr ''b''"
  by code_simp

text \<open>
  Claim C4, amended: with \<open>l\<close> a line without newline and \<open>t\<close> its terminator (a newline
  or nothing), a file that ends in a newline followed by the non-empty \<open>l @ t\<close> gives
  \<open>l @ t\<close>, the final line with its trailing newline when it has one; a file that consists
  of \<open>l @ t\<close> alone gives all of it; the empty file gives the empty string. No case raises.
\<close>

theorem last_line_of_file_final_line:
  assumes "NL \<notin> set l" and "t = [] \<or> t = [NL]"
  shows "(fsys f = Some (pre @ NL # l @ t) \<and> l @ t \<noteq> [] \<longrightarrow> last_line_of_file fsys f = Inr (l @ t))
       \<and> (fsys f = Some (l @ t) \<longrightarrow> last_line_of_file fsys f = Inr (l @ t))
       \<and> (fsys f = Some [] \<longrightarrow> last_line_of_file fsys f = Inr [])"
proof (intro conjI impI)
  assume a: "fsys f = Some (pre @ NL # l @ t) \<and> l @ t \<noteq> []"
  let ?bs = "pre @ NL # l @ t"
  have bl: "butlast ?bs = pre @ NL # butlast (l @ t)"
    using a by (simp add: butlast_append)
  have "NL \<notin> set (butlast (l @ t))"
    using assms by (auto simp: butlast_append dest: in_set_butlastD)
  then have "last_line_of_file fsys f = Inr (butlast (l @ t) @ [last ?bs])"
    using a bl by (intro last_line_multi) auto
  moreover have "last ?bs = last (l @ t)" using a by auto
  moreover have "butlast (l @ t) @ [last (l @ t)] = l @ t"
    using a by (intro append_butlast_last_id) simp
  ultimately show "last_line_of_file fsys f = Inr (l @ t)" by simp
next
  assume a: "fsys f = Some (l @ t)"
  have "NL \<notin> set (butlast (l @ t))"
    using assms by (auto simp: butlast_append dest: in_set_butlastD)
  then show "last_line_of_file fsys f = Inr (l @ t)"
    using a by (intro last_line_single) auto
next
  assume "fsys f = Some []"
  then show "last_line_of_file fsys f = Inr []"
    by (intro last_line_single) auto
qed

theorem last_line_of_file_final_line_witness:
  "last_line_of_file (map_of [(''data.txt'', ''a\<newline>b\<newline>'')]) ''data.txt'' = Inr ''b\<newline>''
   \<and> last_line_of_file (map_of [(''data.txt'', ''a\<newline>bc'')]) ''data.txt'' = Inr ''bc''
   \<and> last_line_of_file (map_of [(''data.txt'', ''only'')]) ''data.txt'' = Inr ''only''
   \<and> last_line_of_file (map_of [(''data.txt'', [])]) ''data.txt'' = Inr []"
proof -
  have nb: "NL \<notin> set ''b''" and nbc: "NL \<notin> set ''bc''" and no: "NL \<notin> set ''only''" by simp_all
  show ?thesis
    using last_line_of_file_final_line[OF nb, of "[NL]" "map_of [(''data.txt'', ''a\<newline>b\<newline>'')]" "''data.txt''" "''a''"]
      last_line_of_file_final_line[OF nbc, of "[]" "map_of [(''data.txt'', ''a\<newline>bc'')]" "''data.txt''" "''a''"]
      last_line_of_file_final_line[OF no, of "[]" "map_of [(''data.txt'', ''only'')]" "''data.txt''" "[]"]
      last_line_of_file_final_line[OF no, of "[]" "map_of [(''data.txt'', [])]" "''data.txt''" "[]"]
    by simp
qed




subsection \<open>Writing rows\<close>



lemma encode_text_plain [simp]: "encode_text (plain s) = Inr s"
  by (induction s) (auto simp: plain_def)


lemma append_entry_unopenable:
  "open_for_writing env filename = Inl e \<Longrightarrow> append_entry env fsys filename row = (Inl e, fsys)"
  by (simp add: append_entry_def)


lemma writing_data_to_nonempty [simp]: "writing_data_to filename \<noteq> []"
  by (simp add: writing_data_to_def)



lemma write_to_file_unopenable:
  assumes "last_line_of_file fsys LOGFILE = Inr tline"
      and "open_for_writing env filename = Inl e"
  shows "write_to_file env cs fsys filename row =
     (Inl e,
      if sublist (writing_data_to filename) tline then fsys
      else append_text fsys LOGFILE
             (NL # log_entry env (strip_dirs (logger_file env)) 85 (writing_data_to filename)))"
  using assms
  by (simp add: write_to_file_def Let_def append_entry_unopenable write_to_logfile_eq
      called_from_def)

text \<open>
  Two runs in the example environment. A data file in a directory that does not exist: the
  notice is logged, then the call raises and no data file appears. And the log file under
  another path, with a row whose record spans two lines: the rows go to the log itself and
  two calls in immediate succession log the notice twice.
\<close>

lemma write_to_file_missing_directory:
  "fst (write_to_file example_env example_caller (map_of [(LOGFILE, [])]) ''nodir/out.csv''
          [plain ''a''])
     = Inl FileNotFoundError
   \<and> snd (write_to_file example_env example_caller (map_of [(LOGFILE, [])]) ''nodir/out.csv''
            [plain ''a'']) LOGFILE
     = Some (NL # log_entry example_env ''logger.py'' 85 (writing_data_to ''nodir/out.csv''))
   \<and> snd (write_to_file example_env example_caller (map_of [(LOGFILE, [])]) ''nodir/out.csv''
            [plain ''a'']) ''nodir/out.csv''
     = None"
  by code_simp

lemma write_to_file_other_path_of_log:
  "snd (write_to_file example_env example_caller
          (snd (write_to_file example_env example_caller (map_of [(LOGFILE, [])])
                  ''./log.txt'' [plain ''x\<newline>y'']))
          ''./log.txt'' [plain ''x\<newline>y'']) LOGFILE
     = Some (NL # log_entry example_env ''logger.py'' 85 (writing_data_to ''./log.txt'')
             @ [DQ] @ ''x\<newline>y'' @ [DQ, CR, NL]
             @ NL # log_entry example_env ''logger.py'' 85 (writing_data_to ''./log.txt'')
             @ [DQ] @ ''x\<newline>y'' @ [DQ, CR, NL])"
  by code_simp





lemma log_entry_nonempty [simp]: "log_entry env f n text \<noteq> []"
  by (simp add: log_entry_def)







section \<open>Properties of the dispatcher\<close>

subsection \<open>Binding the arguments\<close>

lemma dict_setitem_keys: "fst ` set (dict_setitem d k v) = insert k (fst ` set d)"
  by (induction d k v rule: dict_setitem.induct) auto

lemma dict_setitem_subset: "set (dict_setitem d k v) \<subseteq> insert (k, v) (set d)"
  by (induction d k v rule: dict_setitem.induct) auto

lemma dict_setitem_distinct:
  "distinct (map fst d) \<Longrightarrow> distinct (map fst (dict_setitem d k v))"
proof (induction d k v rule: dict_setitem.induct)
  case (1 k v)
  then show ?case by simp
next
  case (2 k' v' d k v)
  then show ?case using dict_setitem_keys[of d k v] by (auto simp: image_iff)
qed

lemma bind_arguments_keys:
  "fst ` set (bind_arguments names vars acc) =
     fst ` set acc \<union> {p \<in> set names. \<exists>v. map_of vars p = Some v \<and> v \<noteq> PyNone}"
proof (induction names arbitrary: acc)
  case Nil
  then show ?case by simp
next
  case (Cons p names)
  show ?case
  proof (cases "map_of vars p")
    case None
    then show ?thesis using Cons.IH[of acc] by auto
  next
    case (Some v)
    then show ?thesis
      using Cons.IH[of acc] Cons.IH[of "dict_setitem acc p v"]
      by (auto simp: dict_setitem_keys)
  qed
qed

lemma bind_arguments_distinct:
  "distinct (map fst acc) \<Longrightarrow> distinct (map fst (bind_arguments names vars acc))"
  by (induction names arbitrary: acc) (auto simp: dict_setitem_distinct)

lemma bind_arguments_values:
  "(\<And>p v. (p, v) \<in> set acc \<Longrightarrow> map_of vars p = Some v \<and> v \<noteq> PyNone) \<Longrightarrow>
   (p, v) \<in> set (bind_arguments names vars acc) \<Longrightarrow> map_of vars p = Some v \<and> v \<noteq> PyNone"
proof (induction names arbitrary: acc)
  case Nil
  then show ?case by simp
next
  case (Cons q names)
  show ?case
  proof (cases "case map_of vars q of None \<Rightarrow> False | Some v \<Rightarrow> v \<noteq> PyNone")
    case False
    then have "(p, v) \<in> set (bind_arguments names vars acc)" using Cons.prems(2) by simp
    then show ?thesis using Cons.IH[of acc] Cons.prems(1) by blast
  next
    case True
    then obtain u where u: "map_of vars q = Some u" "u \<noteq> PyNone"
      by (auto split: option.splits)
    have in': "(p, v) \<in> set (bind_arguments names vars (dict_setitem acc q u))"
      using Cons.prems(2) True u by simp
    have "\<And>p v. (p, v) \<in> set (dict_setitem acc q u) \<Longrightarrow> map_of vars p = Some v \<and> v \<noteq> PyNone"
      using dict_setitem_subset[of acc q u] Cons.prems(1) u by auto
    then show ?thesis using Cons.IH[of "dict_setitem acc q u"] in' by blast
  qed
qed

lemma OPERATIONS_registered:
  "map_of (OPERATIONS m) name \<noteq> None \<longleftrightarrow>
     name \<in> {''add_entries_to_dictionary'', ''remove_entries_from_dictionary'',
               ''add_entries_to_acl'', ''remove_all_acl_entries'', ''remove_acl_entries'',
               ''backup_fastly_dictionary'', ''backup_acl'',
               ''remove_old_fastly_dictionary_entries'', ''remove_all_dictionary_entries''}"
  by (simp add: OPERATIONS_def)

text \<open>
  Claim C1: for a registered operation \<^verbatim>\<open>main\<close> calls the handler once, on the keyword
  arguments it has bound and on nothing else: what \<^verbatim>\<open>main\<close> returns or raises, and the
  files it leaves, are those of that one call. The bound arguments have distinct names,
  which are exactly the declared parameter names that the namespace holds with a value other
  than \<^verbatim>\<open>None\<close>, and each is passed with the value of the namespace: no name the handler
  did not declare and no \<^verbatim>\<open>None\<close> is passed.
\<close>

theorem main_binds_declared_present:
  assumes "map_of (OPERATIONS m) (operation args) = Some h"
  shows "(let kw = bind_arguments (parameters h) (vars_args args) [] in
          main env cs m args w =
            (case call h kw (files w) of
               (Raised e, fsys1) \<Rightarrow>
                 (Inl (Exception_from e), \<lparr>files = fsys1, calls = calls w @ [kw]\<rparr>)
             | (Returned ok, fsys1) \<Rightarrow>
                 (if ok then (Inr (), \<lparr>files = fsys1, calls = calls w @ [kw]\<rparr>)
                  else
                    (Inl (Exception_from
                            (Exception (''Operation, '' @ operation args @ '', has failed.''))),
                     \<lparr>files =
                         fsys1(LOGFILE \<mapsto>
                           contents fsys1 LOGFILE
                             @ NL # log_entry env (strip_dirs (logger_file env)) 55
                                      (''  Error [File: '' @ strip_dirs (main_file env)
                                         @ '' Line: 62] - '' @ ''Operation, '' @ operation args
                                         @ '', has failed.'')),
                      calls = calls w @ [kw]\<rparr>)))
        \<and> distinct (map fst kw)
        \<and> fst ` set kw =
            {p \<in> set (parameters h). \<exists>v. map_of (vars_args args) p = Some v \<and> v \<noteq> PyNone}
        \<and> (\<forall>(p, v) \<in> set kw. map_of (vars_args args) p = Some v \<and> v \<noteq> PyNone))"
proof -
  let ?kw = "bind_arguments (parameters h) (vars_args args) []"
  have "distinct (map fst ?kw)" by (intro bind_arguments_distinct) simp
  moreover have "fst ` set ?kw =
      {p \<in> set (parameters h). \<exists>v. map_of (vars_args args) p = Some v \<and> v \<noteq> PyNone}"
    by (simp add: bind_arguments_keys)
  moreover have "\<forall>(p, v) \<in> set ?kw. map_of (vars_args args) p = Some v \<and> v \<noteq> PyNone"
    using bind_arguments_values[of "[]" "vars_args args" _ _ "parameters h"] by auto
  moreover have "main env cs m args w =
      (case call h ?kw (files w) of
         (Raised e, fsys1) \<Rightarrow>
           (Inl (Exception_from e), \<lparr>files = fsys1, calls = calls w @ [?kw]\<rparr>)
       | (Returned ok, fsys1) \<Rightarrow>
           (if ok then (Inr (), \<lparr>files = fsys1, calls = calls w @ [?kw]\<rparr>)
            else
              (Inl (Exception_from
                      (Exception (''Operation, '' @ operation args @ '', has failed.''))),
               \<lparr>files =
                   fsys1(LOGFILE \<mapsto>
                     contents fsys1 LOGFILE
                       @ NL # log_entry env (strip_dirs (logger_file env)) 55
                                (''  Error [File: '' @ strip_dirs (main_file env)
                                   @ '' Line: 62] - '' @ ''Operation, '' @ operation args
                                   @ '', has failed.'')),
                calls = calls w @ [?kw]\<rparr>)))"
    using assms
    by (simp add: main_def invoke_def Let_def error_handler_def write_to_logfile_def
        append_text_def contents_def log_entry_def called_from_def line_number_def
        str_nat.simps split: prod.splits outcome.splits)
  ultimately show ?thesis unfolding Let_def by blast
qed

theorem main_binds_declared_present_witness:
  "fst (main example_env main_caller
          (recording_fastly [''api_key'', ''service_name'', ''dictionary_name'', ''input_dictionary''])
          (example_args ''remove_all_dictionary_entries'') example_world) = Inr ()
   \<and> files (snd (main example_env main_caller
          (recording_fastly [''api_key'', ''service_name'', ''dictionary_name'', ''input_dictionary''])
          (example_args ''remove_all_dictionary_entries'') example_world)) ''received.txt''
       = Some ''api_key;service_name;''"
proof -
  let ?names = "[''api_key'', ''service_name'', ''dictionary_name'', ''input_dictionary'']"
  have a: "map_of (OPERATIONS (recording_fastly ?names))
             (operation (example_args ''remove_all_dictionary_entries''))
      = Some (recording_probe ?names)"
    by (simp add: OPERATIONS_def recording_fastly_def example_args_def)
  have c: "bind_arguments (parameters (recording_probe ?names))
             (vars_args (example_args ''remove_all_dictionary_entries'')) []
           = [(''api_key'', Str ''key''), (''service_name'', Str ''shop'')]"
    by code_simp
  have d: "call (recording_probe ?names)
             [(''api_key'', Str ''key''), (''service_name'', Str ''shop'')] (files example_world)
           = (Returned True, (files example_world)(''received.txt'' \<mapsto> ''api_key;service_name;''))"
    by (simp add: recording_probe_def received_def)
  note run = main_binds_declared_present[OF a, of example_env main_caller example_world,
      unfolded Let_def c d, THEN conjunct1]
  have evaluated:
    "files (snd (main example_env main_caller (recording_fastly ?names)
                   (example_args ''remove_all_dictionary_entries'') example_world)) ''received.txt''
       = Some ''api_key;service_name;''"
    by code_simp
  show ?thesis using run evaluated by simp
qed

subsection \<open>Failures\<close>

lemma main_frame_file [simp]:
  "strip_dirs (frame_file (snd (called_from cs \<lparr>frame_file = f, frame_line = n\<rparr>))) = strip_dirs f"
  "line_number (called_from cs \<lparr>frame_file = f, frame_line = n\<rparr>) = n"
  by (simp_all add: called_from_def line_number_def)

lemma str_nat_62: "str_nat 62 = ''62''" by code_simp




text \<open>
  Claim C7: when the handler of a registered operation returns a false result, \<^verbatim>\<open>main\<close>
  writes the error with the message \<^verbatim>\<open>Operation, <name>, has failed.\<close> to the log, whose
  content is then what the handler left there followed by a newline and that entry, and
  raises: the \<^verbatim>\<open>Exception\<close> with that message, raised again by the handler of the
  \<^verbatim>\<open>try\<close> block. No other file changes after the handler has returned.
\<close>

theorem main_failed_operation:
  assumes "map_of (OPERATIONS m) (operation args) = Some h"
      and "call h (bind_arguments (parameters h) (vars_args args) []) (files w) = (Returned False, fsys1)"
  shows "main env cs m args w =
     (Inl (Exception_from (Exception (''Operation, '' @ operation args @ '', has failed.''))),
      \<lparr>files =
          fsys1(LOGFILE \<mapsto>
            contents fsys1 LOGFILE
              @ NL # log_entry env (strip_dirs (logger_file env)) 55
                       (''  Error [File: '' @ strip_dirs (main_file env) @ '' Line: 62] - ''
                          @ ''Operation, '' @ operation args @ '', has failed.'')),
       calls = calls w @ [bind_arguments (parameters h) (vars_args args) []]\<rparr>)
   \<and> files (snd (main env cs m args w)) LOGFILE =
       Some (contents fsys1 LOGFILE
               @ NL # log_entry env (strip_dirs (logger_file env)) 55
                        (''  Error [File: '' @ strip_dirs (main_file env) @ '' Line: 62] - ''
                           @ ''Operation, '' @ operation args @ '', has failed.''))"
  using assms
  by (simp add: main_def invoke_def Let_def error_handler_def write_to_logfile_def
      append_text_def contents_def log_entry_def called_from_def line_number_def str_nat.simps)

theorem main_failed_operation_witness:
  "fst (main example_env main_caller example_fastly (example_args ''backup_fastly_dictionary'')
          example_world)
     = Inl (Exception_from (Exception ''Operation, backup_fastly_dictionary, has failed.''))
   \<and> files (snd (main example_env main_caller example_fastly
                   (example_args ''backup_fastly_dictionary'') example_world)) LOGFILE
     = Some (NL # ''[11/03/2026 03:08:00 PM UTC, logger.py: 55]   Error [File: main.py Line: 62] - Operation, backup_fastly_dictionary, has failed. '')"
proof -
  let ?h = "probe [''api_key'', ''service_name'', ''dictionary_name''] False"
  have a: "map_of (OPERATIONS example_fastly) (operation (example_args ''backup_fastly_dictionary''))
      = Some ?h"
    by (simp add: OPERATIONS_def example_fastly_def example_args_def)
  have k: "bind_arguments (parameters ?h) (vars_args (example_args ''backup_fastly_dictionary'')) []
      = [(''api_key'', Str ''key''), (''service_name'', Str ''shop'')]"
    by code_simp
  have b: "call ?h (bind_arguments (parameters ?h) (vars_args (example_args ''backup_fastly_dictionary'')) [])
             (files example_world) = (Returned False, map_of [])"
    unfolding k by (simp add: probe_def example_world_def)
  have c: "strip_dirs (logger_file example_env) = ''logger.py''" by code_simp
  have d: "strip_dirs (main_file example_env) = ''main.py''" by code_simp
  have e: "operation (example_args ''backup_fastly_dictionary'') = ''backup_fastly_dictionary''"
    by (simp add: example_args_def)
  have f: "contents (map_of []) LOGFILE = []" by (simp add: contents_def)
  have g: "log_entry example_env ''logger.py'' 55
             ''  Error [File: main.py Line: 62] - Operation, backup_fastly_dictionary, has failed.''
      = ''[11/03/2026 03:08:00 PM UTC, logger.py: 55]   Error [File: main.py Line: 62] - Operation, backup_fastly_dictionary, has failed. ''"
    by code_simp
  note result = main_failed_operation[OF a b, of example_env main_caller, unfolded c d e f]
  have evaluated:
    "files (snd (main example_env main_caller example_fastly
                   (example_args ''backup_fastly_dictionary'') example_world)) LOGFILE
       = Some (NL # ''[11/03/2026 03:08:00 PM UTC, logger.py: 55]   Error [File: main.py Line: 62] - Operation, backup_fastly_dictionary, has failed. '')"
    by code_simp
  show ?thesis using result g evaluated by simp
qed

subsection \<open>Parsing key and value pairs\<close>

lemma dict_from_bad:
  "list_ex (\<lambda>item. length item \<noteq> 2) items \<Longrightarrow> dict_from d items = Inl ValueError"
proof (induction items arbitrary: d)
  case Nil
  then show ?case by simp
next
  case (Cons item items)
  then show ?case by (auto split: list.splits)
qed

lemma dict_from_good:
  "\<not> list_ex (\<lambda>item. length item \<noteq> 2) items \<Longrightarrow> \<exists>d'. dict_from d items = Inr d'"
proof (induction items arbitrary: d)
  case Nil
  then show ?case by simp
next
  case (Cons item items)
  then show ?case by (auto split: list.splits)
qed

lemma length_split_on: "length (split_on sep s) = Suc (count_list s sep)"
  by (induction s) (auto split: list.splits)

text \<open>
  Claim C9: \<^verbatim>\<open>parse_key_value_pairs("a:1,b:2")\<close> is the dictionary of \<^verbatim>\<open>a\<close> to
  \<^verbatim>\<open>1\<close> and \<^verbatim>\<open>b\<close> to \<^verbatim>\<open>2\<close>; \<^verbatim>\<open>"bad"\<close> raises
  \<^verbatim>\<open>ArgumentTypeError\<close>; and so does every string in which a piece between commas has
  not exactly one colon, while every other string gives a dictionary.
\<close>

theorem parse_key_value_pairs_results:
  "parse_key_value_pairs ''a:1,b:2'' = Inr [(''a'', ''1''), (''b'', ''2'')]
   \<and> parse_key_value_pairs ''bad'' = Inl (ArgumentTypeError ''Invalid key:value pair format: bad'')
   \<and> (if list_ex (\<lambda>pair. count_list pair CHR '':'' \<noteq> 1) (split_on CHR '','' pairs_str)
       then parse_key_value_pairs pairs_str =
              Inl (ArgumentTypeError (''Invalid key:value pair format: '' @ pairs_str))
       else \<exists>d. parse_key_value_pairs pairs_str = Inr d)"
proof -
  have a: "parse_key_value_pairs ''a:1,b:2'' = Inr [(''a'', ''1''), (''b'', ''2'')]"
    by code_simp
  have b: "parse_key_value_pairs ''bad'' = Inl (ArgumentTypeError ''Invalid key:value pair format: bad'')"
    by code_simp
  let ?items = "map (split_on CHR '':'') (split_on CHR '','' pairs_str)"
  have eq: "list_ex (\<lambda>item. length item \<noteq> 2) ?items
      = list_ex (\<lambda>pair. count_list pair CHR '':'' \<noteq> 1) (split_on CHR '','' pairs_str)"
    by (simp add: list_ex_iff length_split_on)
  have c: "list_ex (\<lambda>pair. count_list pair CHR '':'' \<noteq> 1) (split_on CHR '','' pairs_str) \<Longrightarrow>
      parse_key_value_pairs pairs_str =
        Inl (ArgumentTypeError (''Invalid key:value pair format: '' @ pairs_str))"
    using dict_from_bad[of ?items "[]"] eq by (simp add: parse_key_value_pairs_def)
  have d: "\<not> list_ex (\<lambda>pair. count_list pair CHR '':'' \<noteq> 1) (split_on CHR '','' pairs_str) \<Longrightarrow>
      \<exists>d. parse_key_value_pairs pairs_str = Inr d"
    using dict_from_good[of ?items "[]"] eq by (auto simp: parse_key_value_pairs_def)
  show ?thesis using a b c d by simp
qed

theorem parse_key_value_pairs_results_witness:
  "parse_key_value_pairs ''a:1,b'' = Inl (ArgumentTypeError ''Invalid key:value pair format: a:1,b'')
   \<and> parse_key_value_pairs ''a:1:2'' = Inl (ArgumentTypeError ''Invalid key:value pair format: a:1:2'')
   \<and> (\<exists>d. parse_key_value_pairs ''k:v'' = Inr d)"
proof -
  have a: "list_ex (\<lambda>pair. count_list pair CHR '':'' \<noteq> 1) (split_on CHR '','' ''a:1,b'')" by code_simp
  have b: "list_ex (\<lambda>pair. count_list pair CHR '':'' \<noteq> 1) (split_on CHR '','' ''a:1:2'')" by code_simp
  have c: "\<not> list_ex (\<lambda>pair. count_list pair CHR '':'' \<noteq> 1) (split_on CHR '','' ''k:v'')" by code_simp
  show ?thesis
    using parse_key_value_pairs_results[of "''a:1,b''"] parse_key_value_pairs_results[of "''a:1:2''"]
      parse_key_value_pairs_results[of "''k:v''"] a b c
    by simp
qed

end
